theory Spec2Isabelle
  imports Complex_Main
begin

section \<open>Python values\<close>

text \<open>
  The program handles three kinds of data: text (Python \<open>str\<close>), the values produced by
  the JSON decoder, and exceptions. A \<open>str\<close> is a \<^typ>\<open>string\<close>, one \<^typ>\<open>char\<close> per
  code point, which covers the code points below 256.
\<close>

text \<open>
  A Python \<open>float\<close>: the exact value of a finite double, or one of the three values that
  are not finite (the decoder accepts \<open>NaN\<close>, \<open>Infinity\<close> and \<open>-Infinity\<close>).
\<close>

datatype pyfloat = Finite rat | PosInf | NegInf | NaN

text \<open>
  What \<open>response.json()\<close> returns. A \<open>dict\<close> is the list of its items in insertion order
  (the order of the JSON text), looked up with \<^const>\<open>map_of\<close>; \<open>None\<close> is \<open>JNull\<close>.
\<close>

datatype json =
    JNull
  | JBool bool
  | JInt int
  | JFloat pyfloat
  | JStr string
  | JArr "json list"
  | JObj "(string \<times> json) list"

type_synonym pydict = "(string \<times> json) list"

datatype error =
    RequestException
  | HTTPError nat
  | JSONDecodeError
  | KeyError string
  | TypeError
  | AttributeError
  | GroqError
  | EOFError

text \<open>Truth value testing, as \<open>if v\<close>, \<open>not v\<close> and \<open>a or b\<close> apply it.\<close>

fun py_truthy :: "json \<Rightarrow> bool" where
  "py_truthy JNull = False"
| "py_truthy (JBool b) = b"
| "py_truthy (JInt i) = (i \<noteq> 0)"
| "py_truthy (JFloat f) = (f \<noteq> Finite 0)"
| "py_truthy (JStr s) = (s \<noteq> [])"
| "py_truthy (JArr xs) = (xs \<noteq> [])"
| "py_truthy (JObj kvs) = (kvs \<noteq> [])"

definition py_or :: "json \<Rightarrow> json \<Rightarrow> json" where
  "py_or a b = (if py_truthy a then a else b)"

text \<open>\<open>d.get(k)\<close> and \<open>d.get(k, default)\<close> on a dict.\<close>

definition dict_get_default :: "pydict \<Rightarrow> string \<Rightarrow> json \<Rightarrow> json" where
  "dict_get_default d k dflt = (case map_of d k of None \<Rightarrow> dflt | Some v \<Rightarrow> v)"

definition dict_get :: "pydict \<Rightarrow> string \<Rightarrow> json" where
  "dict_get d k = dict_get_default d k JNull"

text \<open>\<open>v[k]\<close> with a string key: only a dict can be subscripted by a string.\<close>

fun py_getitem :: "json \<Rightarrow> string \<Rightarrow> error + json" where
  "py_getitem (JObj d) k = (case map_of d k of None \<Rightarrow> Inl (KeyError k) | Some v \<Rightarrow> Inr v)"
| "py_getitem v k = Inl TypeError"

text \<open>
  \<open>k in v\<close> with a string \<open>k\<close>: a key of a dict, an element of a list, a substring of a
  string; the other values are not iterable.
\<close>

fun is_prefix :: "string \<Rightarrow> string \<Rightarrow> bool" where
  "is_prefix [] ys = True"
| "is_prefix (x # xs) [] = False"
| "is_prefix (x # xs) (y # ys) = (x = y \<and> is_prefix xs ys)"

fun is_substring :: "string \<Rightarrow> string \<Rightarrow> bool" where
  "is_substring xs [] = (xs = [])"
| "is_substring xs (y # ys) = (is_prefix xs (y # ys) \<or> is_substring xs ys)"

fun py_in :: "string \<Rightarrow> json \<Rightarrow> error + bool" where
  "py_in k (JObj d) = Inr (k \<in> set (map fst d))"
| "py_in k (JArr xs) = Inr (JStr k \<in> set xs)"
| "py_in k (JStr s) = Inr (is_substring k s)"
| "py_in k v = Inl TypeError"

text \<open>
  \<open>v == n\<close> for an integer \<open>n\<close>: Python compares numbers by value, and \<open>bool\<close> is a
  subclass of \<open>int\<close> (\<open>True == 1\<close>, \<open>1.0 == 1\<close>).
\<close>

fun py_eq_int :: "json \<Rightarrow> int \<Rightarrow> bool" where
  "py_eq_int (JInt i) n = (i = n)"
| "py_eq_int (JBool b) n = ((if b then 1 else 0) = n)"
| "py_eq_int (JFloat f) n = (f = Finite (of_int n))"
| "py_eq_int v n = False"

section \<open>Text\<close>

text \<open>
  \<open>str.isspace\<close> on one character, for the code points below 256: the ASCII controls
  9 to 13 and 28 to 31, the space, NEL (133) and the no-break space (160).
\<close>

definition isspace :: "char \<Rightarrow> bool" where
  "isspace c =
     (let n = (of_char c :: nat)
      in (9 \<le> n \<and> n \<le> 13) \<or> (28 \<le> n \<and> n \<le> 31) \<or> n = 32 \<or> n = 133 \<or> n = 160)"

definition lstrip :: "string \<Rightarrow> string" where
  "lstrip s = dropWhile isspace s"

definition rstrip :: "string \<Rightarrow> string" where
  "rstrip s = rev (dropWhile isspace (rev s))"

text \<open>\<open>s.strip()\<close>: the whitespace at both ends is removed.\<close>

definition strip :: "string \<Rightarrow> string" where
  "strip s = rstrip (lstrip s)"

text \<open>
  \<open>s.split(sep)\<close> for a separator of one character: the pieces between the separators,
  empty pieces kept, so that the empty string gives one empty piece.
\<close>

fun split :: "char \<Rightarrow> string \<Rightarrow> string list" where
  "split sep [] = [[]]"
| "split sep (c # cs) =
     (if c = sep then [] # split sep cs
      else (case split sep cs of
              [] \<Rightarrow> [[c]]
            | p # ps \<Rightarrow> (c # p) # ps))"

text \<open>\<open>sep.join(xs)\<close>.\<close>

fun join :: "string \<Rightarrow> string list \<Rightarrow> string" where
  "join sep [] = []"
| "join sep [x] = x"
| "join sep (x # y # ys) = x @ sep @ join sep (y # ys)"

section \<open>Configuration\<close>

definition BASE_URL :: string where
  "BASE_URL = ''https://getpocket.com''"

definition REDIRECT_URL :: string where
  "REDIRECT_URL = ''localhost''"

text \<open>The predefined list of candidate tags, in the order of the source.\<close>

definition TAG_LIST :: "string list" where
  "TAG_LIST =
     [''ai/ml'', ''amazon'', ''apple'', ''auto'', ''books'', ''business'', ''design'',
      ''dev'', ''dogs'', ''edu'', ''facebook'', ''funny'', ''future'', ''google'',
      ''harvard'', ''history'', ''hockey'', ''life'', ''longreads'', ''math'', ''media'',
      ''microsoft'', ''misc'', ''music'', ''news'', ''parenting'', ''policy'', ''reviews'',
      ''science'', ''seattle'', ''security'', ''sfbay'', ''sports'', ''tech'', ''tv'',
      ''video games'', ''videos'', ''work'']"

section \<open>The environment and its effects\<close>

text \<open>
  What the HTTP library returns for one request: the status code, the value of
  \<open>response.headers.get("X-Error")\<close>, the body as text, and the outcome of
  \<open>response.json()\<close> on that body (the decoder belongs to the library).
\<close>

record response =
  status_code :: nat
  x_error :: "string option"
  body_text :: string
  json_body :: "error + json"

text \<open>The arguments of \<open>client.chat.completions.create\<close>.\<close>

record chat_request =
  model :: string
  system_content :: string
  user_content :: string
  temperature :: rat
  max_tokens :: nat

text \<open>
  Everything outside the program: the process environment, the bookmarking service, the
  LLM service, the console, and the two renderings of a value that the standard library
  provides (\<open>str()\<close> of a value that is not a string, and \<open>json.dumps\<close>).
  \<open>groq_chat\<close> is the outcome of the request up to \<open>response.choices[0].message.content\<close>:
  an exception, or the content, which may be \<open>None\<close>.
\<close>

record world =
  consumer_key :: "string option"
  http_post :: "string \<Rightarrow> (string \<times> string) list \<Rightarrow> json \<Rightarrow> error + response"
  groq_client :: "error option"
  groq_chat :: "chat_request \<Rightarrow> error + string option"
  console_input :: "error option"
  py_repr :: "json \<Rightarrow> string"
  json_dumps :: "json \<Rightarrow> string"

text \<open>The lines the program prints, by the statement that prints them.\<close>

datatype message =
    MsgStatusCode nat
  | MsgResponseText string
  | MsgRequestingTags json
  | MsgSuggestedTags string
  | MsgGroqError error
  | MsgFetching
  | MsgFound nat
  | MsgAddingTags string string
  | MsgAddError error
  | MsgAuthenticated
  | MsgProcessing nat
  | MsgArticle json json
  | MsgNoUnread

text \<open>The effects of the program, in the order they happen.\<close>

datatype event =
    Print message
  | LogError nat string
  | HttpPost string "(string \<times> string) list" json
  | BrowserOpen string
  | ConsoleInput string
  | GroqChat chat_request

text \<open>A value of the environment (\<open>os.getenv\<close>) as it goes into a payload.\<close>

definition env_value :: "string option \<Rightarrow> json" where
  "env_value v = (case v of None \<Rightarrow> JNull | Some s \<Rightarrow> JStr s)"

text \<open>A value interpolated into an f-string.\<close>

definition py_str :: "world \<Rightarrow> json \<Rightarrow> string" where
  "py_str w v = (case v of JStr s \<Rightarrow> s | _ \<Rightarrow> py_repr w v)"

text \<open>\<open>response.raise_for_status()\<close>: an \<open>HTTPError\<close> for a status from 400 to 599.\<close>

definition raise_for_status :: "response \<Rightarrow> error + unit" where
  "raise_for_status r =
     (if 400 \<le> status_code r \<and> status_code r < 600 then Inl (HTTPError (status_code r))
      else Inr ())"

section \<open>The HTTP client wrapper and the OAuth flow\<close>

definition post_headers :: "(string \<times> string) list" where
  "post_headers =
     [(''Content-Type'', ''application/json''), (''X-Accept'', ''application/json'')]"

text \<open>
  \<open>post(url, data)\<close>. The branch of the error header ends without a \<open>return\<close>: when
  \<open>raise_for_status\<close> does not raise, the function returns \<open>None\<close>.
\<close>

definition post :: "world \<Rightarrow> string \<Rightarrow> json \<Rightarrow> (error + json) \<times> event list" where
  "post w url data =
     (case http_post w url post_headers data of
        Inl e \<Rightarrow> (Inl e, [HttpPost url post_headers data])
      | Inr r \<Rightarrow>
          (let shown = [HttpPost url post_headers data,
                        Print (MsgStatusCode (status_code r)),
                        Print (MsgResponseText (body_text r))]
           in case x_error r of
                Some err \<Rightarrow>
                  (if err \<noteq> [] then
                     (case raise_for_status r of
                        Inl e \<Rightarrow> (Inl e, shown @ [LogError (status_code r) err])
                      | Inr u \<Rightarrow> (Inr JNull, shown @ [LogError (status_code r) err]))
                   else if strip (body_text r) \<noteq> [] then (json_body r, shown)
                   else (Inr (JObj []), shown))
              | None \<Rightarrow>
                  (if strip (body_text r) \<noteq> [] then (json_body r, shown)
                   else (Inr (JObj []), shown))))"

definition code_url :: string where
  "code_url = BASE_URL @ ''/v3/oauth/request''"

definition code_payload :: "world \<Rightarrow> json" where
  "code_payload w =
     JObj [(''consumer_key'', env_value (consumer_key w)),
           (''redirect_uri'', JStr REDIRECT_URL)]"

definition request_code :: "world \<Rightarrow> (error + json) \<times> event list" where
  "request_code w =
     (case post w code_url (code_payload w) of
        (Inl e, tr) \<Rightarrow> (Inl e, tr)
      | (Inr resp, tr) \<Rightarrow> (py_getitem resp ''code'', tr))"

definition token_url :: string where
  "token_url = BASE_URL @ ''/v3/oauth/authorize''"

definition token_payload :: "world \<Rightarrow> json \<Rightarrow> json" where
  "token_payload w code =
     JObj [(''consumer_key'', env_value (consumer_key w)),
           (''code'', code)]"

definition request_access_token :: "world \<Rightarrow> json \<Rightarrow> (error + json) \<times> event list" where
  "request_access_token w code =
     (case post w token_url (token_payload w code) of
        (Inl e, tr) \<Rightarrow> (Inl e, tr)
      | (Inr resp, tr) \<Rightarrow> (py_getitem resp ''access_token'', tr))"

definition request_authorization :: "world \<Rightarrow> json \<Rightarrow> event list" where
  "request_authorization w code =
     [BrowserOpen (BASE_URL @ ''/auth/authorize?request_token='' @ py_str w code
                   @ ''&redirect_uri='' @ REDIRECT_URL)]"

definition authenticate_pocket :: "world \<Rightarrow> (error + json) \<times> event list" where
  "authenticate_pocket w =
     (case request_code w of
        (Inl e, tr) \<Rightarrow> (Inl e, tr)
      | (Inr code, tr) \<Rightarrow>
          (let tr2 = tr @ request_authorization w code
                        @ [ConsoleInput ''Press any key after authorizing app...'']
           in case console_input w of
                Some e \<Rightarrow> (Inl e, tr2)
              | None \<Rightarrow>
                  (case request_access_token w code of
                     (r, tr3) \<Rightarrow> (r, tr2 @ tr3))))"

section \<open>The tag classifier\<close>

text \<open>
  The best available title and URL of an article: \<open>a.get(k1) or a.get(k2) or default\<close>
  takes the first of the two values that is true, and the default when neither is.
\<close>

definition article_title :: "pydict \<Rightarrow> json" where
  "article_title article =
     py_or (dict_get article ''resolved_title'')
       (py_or (dict_get article ''given_title'') (JStr ''No title''))"

definition article_url :: "pydict \<Rightarrow> json" where
  "article_url article =
     py_or (dict_get article ''resolved_url'')
       (py_or (dict_get article ''given_url'') (JStr ''No URL''))"

definition prompt_indent :: string where
  "prompt_indent = [CHR 0x0A] @ ''    ''"

text \<open>The f-string of the prompt, line by line.\<close>

definition build_prompt :: "world \<Rightarrow> pydict \<Rightarrow> string" where
  "build_prompt w article =
     (let title = article_title article;
          url = article_url article;
          excerpt = dict_get_default article ''excerpt'' (JStr [])
      in prompt_indent @ ''I have an article with the following details:''
         @ prompt_indent
         @ prompt_indent @ ''Title: '' @ py_str w title
         @ prompt_indent @ ''URL: '' @ py_str w url
         @ prompt_indent @ ''Excerpt: '' @ py_str w excerpt
         @ prompt_indent
         @ prompt_indent @ ''Based on this information, suggest 1-5 tags from the ''
         @ ''following list that best match this article'' @ [CHR 0x27] @ ''s content:''
         @ prompt_indent @ join '', '' TAG_LIST
         @ prompt_indent
         @ prompt_indent @ ''Respond with ONLY the most relevant tags separated by ''
         @ ''commas. No explanations or additional text.''
         @ prompt_indent)"

definition tag_request :: "string \<Rightarrow> chat_request" where
  "tag_request prompt =
     \<lparr>model = ''llama3-8b-8192'',
      system_content =
        ''You are a helpful assistant that suggests relevant tags for articles.'',
      user_content = prompt,
      temperature = 3 / 10,
      max_tokens = 50\<rparr>"

text \<open>
  The reply is stripped, split at the commas, each piece stripped, and the pieces that
  are in \<open>TAG_LIST\<close> are kept.
\<close>

definition valid_tags :: "string \<Rightarrow> string list" where
  "valid_tags content =
     (let suggested_tags_text = strip content;
          suggested_tags = map strip (split (CHR '','') suggested_tags_text)
      in filter (\<lambda>tag. tag \<in> set TAG_LIST) suggested_tags)"

text \<open>
  \<open>get_tag_suggestions(article)\<close>. The client is built before the \<open>try\<close>, so a failure
  there is raised; every exception of the request and of reading its reply is caught and
  gives the empty list. A content that is \<open>None\<close> has no \<open>strip\<close>.
\<close>

definition get_tag_suggestions :: "world \<Rightarrow> pydict \<Rightarrow> (error + string list) \<times> event list" where
  "get_tag_suggestions w article =
     (case groq_client w of
        Some e \<Rightarrow> (Inl e, [])
      | None \<Rightarrow>
          (let req = tag_request (build_prompt w article);
               tr = [Print (MsgRequestingTags (article_title article)), GroqChat req]
           in case groq_chat w req of
                Inl e \<Rightarrow> (Inr [], tr @ [Print (MsgGroqError e)])
              | Inr None \<Rightarrow> (Inr [], tr @ [Print (MsgGroqError AttributeError)])
              | Inr (Some content) \<Rightarrow>
                  (Inr (valid_tags content),
                   tr @ [Print (MsgSuggestedTags (join '', '' (valid_tags content)))])))"

section \<open>The article fetcher\<close>

text \<open>
  The loop over \<open>data["list"].items()\<close>, with the list \<open>articles\<close> it appends to. An
  entry that is not a dict has no \<open>get\<close>.
\<close>

fun untagged_loop ::
  "(string \<times> json) list \<Rightarrow> (string \<times> json) list \<Rightarrow> error + (string \<times> json) list" where
  "untagged_loop articles [] = Inr articles"
| "untagged_loop articles ((article_id, article) # rest) =
     (case article of
        JObj d \<Rightarrow>
          (if \<not> py_truthy (dict_get d ''tags'')
           then untagged_loop (articles @ [(article_id, article)]) rest
           else untagged_loop articles rest)
      | _ \<Rightarrow> Inl AttributeError)"

text \<open>The test of the loop, \<open>not article.get("tags")\<close>, on an entry that is a dict.\<close>

fun has_no_tags :: "json \<Rightarrow> bool" where
  "has_no_tags (JObj d) = (\<not> py_truthy (dict_get d ''tags''))"
| "has_no_tags v = False"

text \<open>
  The part of \<open>get_unread_articles\<close> after the response is decoded: only a dict has
  \<open>items\<close>.
\<close>

definition select_untagged :: "json \<Rightarrow> error + (string \<times> json) list" where
  "select_untagged data =
     (case py_in ''list'' data of
        Inl e \<Rightarrow> Inl e
      | Inr False \<Rightarrow> Inr []
      | Inr True \<Rightarrow>
          (case py_getitem data ''list'' of
             Inl e \<Rightarrow> Inl e
           | Inr (JObj items) \<Rightarrow> untagged_loop [] items
           | Inr _ \<Rightarrow> Inl AttributeError))"

definition fetch_url :: string where
  "fetch_url = ''https://getpocket.com/v3/get''"

definition fetch_payload :: "world \<Rightarrow> json \<Rightarrow> json" where
  "fetch_payload w token =
     JObj [(''consumer_key'', env_value (consumer_key w)),
           (''access_token'', token),
           (''state'', JStr ''unread''),
           (''detailType'', JStr ''complete''),
           (''tag'', JStr ''_untagged_'')]"

text \<open>
  \<open>get_unread_articles(token)\<close>: the request is sent without the wrapper \<open>post\<close>, and
  the status of the response is not looked at.
\<close>

definition get_unread_articles ::
  "world \<Rightarrow> json \<Rightarrow> (error + (string \<times> json) list) \<times> event list" where
  "get_unread_articles w token =
     (let tr = [Print MsgFetching, HttpPost fetch_url [] (fetch_payload w token)]
      in case http_post w fetch_url [] (fetch_payload w token) of
           Inl e \<Rightarrow> (Inl e, tr)
         | Inr r \<Rightarrow>
             (case json_body r of
                Inl e \<Rightarrow> (Inl e, tr)
              | Inr data \<Rightarrow>
                  (case select_untagged data of
                     Inl e \<Rightarrow> (Inl e, tr)
                   | Inr articles \<Rightarrow>
                       (Inr articles, tr @ [Print (MsgFound (length articles))]))))"

section \<open>The tag writer\<close>

text \<open>The body of the \<open>try\<close> in \<open>add_tags_to_article\<close>, with the effects up to its end.\<close>

definition send_tags ::
  "world \<Rightarrow> string \<Rightarrow> json \<Rightarrow> string \<Rightarrow> string list \<Rightarrow> (error + bool) \<times> event list" where
  "send_tags w url payload article_id tags =
     (let tr = [Print (MsgAddingTags article_id (join '', '' tags)), HttpPost url [] payload]
      in case http_post w url [] payload of
           Inl e \<Rightarrow> (Inl e, tr)
         | Inr r \<Rightarrow>
             (case raise_for_status r of
                Inl e \<Rightarrow> (Inl e, tr)
              | Inr u \<Rightarrow>
                  (case json_body r of
                     Inl e \<Rightarrow> (Inl e, tr)
                   | Inr (JObj data) \<Rightarrow>
                       (Inr (py_eq_int (dict_get_default data ''status'' (JInt 0)) 1), tr)
                   | Inr _ \<Rightarrow> (Inl AttributeError, tr))))"

definition tags_payload :: "world \<Rightarrow> json \<Rightarrow> string \<Rightarrow> string list \<Rightarrow> json" where
  "tags_payload w token article_id tags =
     JObj [(''consumer_key'', env_value (consumer_key w)),
           (''access_token'', token),
           (''actions'',
            JStr (json_dumps w
              (JArr [JObj [(''action'', JStr ''tags_add''),
                           (''item_id'', JStr article_id),
                           (''tags'', JStr (join '','' tags))]])))]"

text \<open>
  \<open>add_tags_to_article(token, article_id, tags)\<close>: nothing is sent for an empty list, and
  an exception of the \<open>try\<close> is printed and gives \<open>False\<close>.
\<close>

definition send_url :: string where
  "send_url = BASE_URL @ ''/v3/send''"

definition add_tags_to_article ::
  "world \<Rightarrow> json \<Rightarrow> string \<Rightarrow> string list \<Rightarrow> bool \<times> event list" where
  "add_tags_to_article w token article_id tags =
     (if tags = [] then (False, [])
      else
        (case send_tags w send_url (tags_payload w token article_id tags) article_id tags of
           (Inl e, tr) \<Rightarrow> (False, tr @ [Print (MsgAddError e)])
         | (Inr ok, tr) \<Rightarrow> (ok, tr)))"

section \<open>The global of the module, and the driver\<close>

text \<open>
  \<open>TAG_LIST\<close> is a global name of the module, bound to a list when the module is loaded,
  and Python lets any function change such a list in place. To say what the program does
  to it, the functions that can reach it take the list as state and return it:
  \<open>get_tag_suggestions\<close>, which reads it for the prompt and for the filter, and \<open>main\<close>,
  which calls \<open>get_tag_suggestions\<close>. No other function of the program names \<open>TAG_LIST\<close>
  or calls one that does.
\<close>

record module_globals =
  vocabulary :: "string list"

definition module_load :: module_globals where
  "module_load = \<lparr>vocabulary = TAG_LIST\<rparr>"

definition build_prompt_in :: "module_globals \<Rightarrow> world \<Rightarrow> pydict \<Rightarrow> string" where
  "build_prompt_in g w article =
     (let title = article_title article;
          url = article_url article;
          excerpt = dict_get_default article ''excerpt'' (JStr [])
      in prompt_indent @ ''I have an article with the following details:''
         @ prompt_indent
         @ prompt_indent @ ''Title: '' @ py_str w title
         @ prompt_indent @ ''URL: '' @ py_str w url
         @ prompt_indent @ ''Excerpt: '' @ py_str w excerpt
         @ prompt_indent
         @ prompt_indent @ ''Based on this information, suggest 1-5 tags from the ''
         @ ''following list that best match this article'' @ [CHR 0x27] @ ''s content:''
         @ prompt_indent @ join '', '' (vocabulary g)
         @ prompt_indent
         @ prompt_indent @ ''Respond with ONLY the most relevant tags separated by ''
         @ ''commas. No explanations or additional text.''
         @ prompt_indent)"

definition valid_tags_in :: "module_globals \<Rightarrow> string \<Rightarrow> string list" where
  "valid_tags_in g content =
     (let suggested_tags_text = strip content;
          suggested_tags = map strip (split (CHR '','') suggested_tags_text)
      in filter (\<lambda>tag. tag \<in> set (vocabulary g)) suggested_tags)"

text \<open>
  \<open>get_tag_suggestions(article)\<close> with the globals it runs in: the list is read, and no
  statement of the function assigns to it or calls a method of it that changes it.
\<close>

definition get_tag_suggestions_in ::
  "world \<Rightarrow> pydict \<Rightarrow> module_globals
     \<Rightarrow> ((error + string list) \<times> event list) \<times> module_globals" where
  "get_tag_suggestions_in w article g =
     (case groq_client w of
        Some e \<Rightarrow> ((Inl e, []), g)
      | None \<Rightarrow>
          (let req = tag_request (build_prompt_in g w article);
               tr = [Print (MsgRequestingTags (article_title article)), GroqChat req]
           in case groq_chat w req of
                Inl e \<Rightarrow> ((Inr [], tr @ [Print (MsgGroqError e)]), g)
              | Inr None \<Rightarrow> ((Inr [], tr @ [Print (MsgGroqError AttributeError)]), g)
              | Inr (Some content) \<Rightarrow>
                  ((Inr (valid_tags_in g content),
                    tr @ [Print (MsgSuggestedTags (join '', '' (valid_tags_in g content)))]),
                   g)))"

text \<open>
  The loop of \<open>main\<close> over the unread articles. An exception of \<open>get_tag_suggestions\<close>
  ends the run; \<open>add_tags_to_article\<close> raises none, and its result is not used.
\<close>

fun main_loop ::
  "world \<Rightarrow> json \<Rightarrow> (string \<times> json) list \<Rightarrow> module_globals
     \<Rightarrow> ((error + unit) \<times> event list) \<times> module_globals" where
  "main_loop w access_token [] g = ((Inr (), []), g)"
| "main_loop w access_token ((article_id, article) # rest) g =
     (case article of
        JObj d \<Rightarrow>
          (let shown = [Print (MsgArticle
                                 (dict_get_default d ''resolved_title'' (JStr ''No title''))
                                 (dict_get_default d ''resolved_url'' (JStr ''No URL'')))]
           in case get_tag_suggestions_in w d g of
                ((Inl e, tr), g1) \<Rightarrow> ((Inl e, shown @ tr), g1)
              | ((Inr suggested_tags, tr), g1) \<Rightarrow>
                  (case add_tags_to_article w access_token article_id suggested_tags of
                     (ok, tr2) \<Rightarrow>
                       (case main_loop w access_token rest g1 of
                          ((r, tr3), g2) \<Rightarrow> ((r, shown @ tr @ tr2 @ tr3), g2))))
      | _ \<Rightarrow> ((Inl AttributeError, []), g))"

text \<open>
  \<open>main()\<close>: a failure of the authentication or of the fetch ends the run with its
  exception.
\<close>

definition main ::
  "world \<Rightarrow> module_globals \<Rightarrow> ((error + unit) \<times> event list) \<times> module_globals" where
  "main w g =
     (case authenticate_pocket w of
        (Inl e, tr) \<Rightarrow> ((Inl e, tr), g)
      | (Inr access_token, tr) \<Rightarrow>
          (let tr1 = tr @ [Print MsgAuthenticated]
           in case get_unread_articles w access_token of
                (Inl e, tr2) \<Rightarrow> ((Inl e, tr1 @ tr2), g)
              | (Inr unread_articles, tr2) \<Rightarrow>
                  (if unread_articles \<noteq> [] then
                     (case main_loop w access_token unread_articles g of
                        ((r, tr3), g') \<Rightarrow>
                          ((r, tr1 @ tr2
                               @ [Print (MsgProcessing (length unread_articles))] @ tr3),
                           g'))
                   else ((Inr (), tr1 @ tr2 @ [Print MsgNoUnread]), g))))"

section \<open>Reading a trace, and environments to run the program in\<close>

fun is_browser_open :: "event \<Rightarrow> bool" where
  "is_browser_open (BrowserOpen url) = True"
| "is_browser_open ev = False"

fun is_log_error :: "event \<Rightarrow> bool" where
  "is_log_error (LogError sc err) = True"
| "is_log_error ev = False"

fun is_http_post :: "event \<Rightarrow> bool" where
  "is_http_post (HttpPost url headers payload) = True"
| "is_http_post ev = False"

fun is_post_to :: "string \<Rightarrow> event \<Rightarrow> bool" where
  "is_post_to target (HttpPost url headers payload) = (url = target)"
| "is_post_to target ev = False"

text \<open>
  An environment in which every HTTP request has the outcome \<open>http_result\<close> and every
  chat request the outcome \<open>chat_result\<close>.
\<close>

definition fixed_world :: "(error + response) \<Rightarrow> (error + string option) \<Rightarrow> world" where
  "fixed_world http_result chat_result =
     \<lparr>consumer_key = Some ''consumer-key'',
      http_post = (\<lambda>url headers payload. http_result),
      groq_client = None,
      groq_chat = (\<lambda>req. chat_result),
      console_input = None,
      py_repr = (\<lambda>v. ''?''),
      json_dumps = (\<lambda>v. ''?'')\<rparr>"

text \<open>A response with the given status, error header and body, decoded as given.\<close>

definition a_response :: "nat \<Rightarrow> string option \<Rightarrow> string \<Rightarrow> error + json \<Rightarrow> response" where
  "a_response sc err body decoded =
     \<lparr>status_code = sc, x_error = err, body_text = body, json_body = decoded\<rparr>"

text \<open>
  The fetch response of the specification's scenario:
  \<^verbatim>\<open>{"list": {"1": {"resolved_title": "X", "tags": {}},
            "2": {"resolved_title": "Y", "tags": {"a": 1}}}}\<close>
\<close>

definition scenario_fetch :: json where
  "scenario_fetch =
     JObj [(''list'',
            JObj [(''1'', JObj [(''resolved_title'', JStr ''X''), (''tags'', JObj [])]),
                  (''2'', JObj [(''resolved_title'', JStr ''Y''),
                                (''tags'', JObj [(''a'', JInt 1)])])])]"

section \<open>The fixed environment\<close>

lemma fixed_world_simps:
  "groq_client (fixed_world h c) = None"
  "groq_chat (fixed_world h c) req = c"
  "http_post (fixed_world h c) url hs p = h"
  "console_input (fixed_world h c) = None"
  "consumer_key (fixed_world h c) = Some ''consumer-key''"
  by (simp_all add: fixed_world_def)

lemma a_response_simps:
  "status_code (a_response sc err body decoded) = sc"
  "x_error (a_response sc err body decoded) = err"
  "body_text (a_response sc err body decoded) = body"
  "json_body (a_response sc err body decoded) = decoded"
  by (simp_all add: a_response_def)

section \<open>Splitting and stripping\<close>

lemma split_nonempty: "split sep s \<noteq> []"
  by (induction s) (auto split: list.splits)

lemma length_split: "length (split sep s) = Suc (count_list s sep)"
  by (induction s) (auto split: list.splits simp: split_nonempty)

lemma split_no_sep: "sep \<notin> set t \<Longrightarrow> split sep t = [t]"
  by (induction t) auto

lemma split_append_tail:
  "sep \<notin> set t \<Longrightarrow> split sep (s @ t) = butlast (split sep s) @ [last (split sep s) @ t]"
proof (induction s)
  case Nil
  then show ?case by (simp add: split_no_sep)
next
  case (Cons c cs)
  obtain p ps where sp: "split sep cs = p # ps"
    using split_nonempty [of sep cs] by (cases "split sep cs") auto
  show ?case
  proof (cases "c = sep")
    case True
    with Cons sp show ?thesis by simp
  next
    case False
    with Cons sp show ?thesis by (cases ps) auto
  qed
qed

lemma split_append_head:
  "sep \<notin> set u \<Longrightarrow> split sep (u @ s) = (u @ hd (split sep s)) # tl (split sep s)"
proof (induction u)
  case Nil
  then show ?case using split_nonempty [of sep s] by simp
next
  case (Cons c cs)
  then show ?case by auto
qed

lemma comma_not_space: "\<not> isspace (CHR '','')"
  by (simp add: isspace_def)

lemma strip_append_spaces:
  assumes "\<forall>c\<in>set t. isspace c"
  shows "strip (p @ t) = strip p"
proof (cases "\<forall>c\<in>set p. isspace c")
  case True
  with assms have "\<forall>c\<in>set (p @ t). isspace c"
    by auto
  then have "dropWhile isspace (p @ t) = []"
    by (simp only: dropWhile_eq_Nil_conv)
  moreover from True have "dropWhile isspace p = []"
    by (simp only: dropWhile_eq_Nil_conv)
  ultimately show ?thesis
    by (simp only: strip_def lstrip_def rstrip_def)
next
  case False
  then obtain x where "x \<in> set p" and "\<not> isspace x"
    by auto
  then have "dropWhile isspace (p @ t) = dropWhile isspace p @ t"
    by (rule dropWhile_append1)
  moreover have "dropWhile isspace (rev t @ rev (dropWhile isspace p))
                   = dropWhile isspace (rev (dropWhile isspace p))"
  proof (rule dropWhile_append2)
    fix x assume "x \<in> set (rev t)"
    with assms show "isspace x" by simp
  qed
  ultimately show ?thesis by (simp add: strip_def lstrip_def rstrip_def)
qed

lemma strip_prepend_spaces:
  assumes "\<forall>c\<in>set u. isspace c"
  shows "strip (u @ p) = strip p"
proof -
  have "dropWhile isspace (u @ p) = dropWhile isspace p"
    using assms by (intro dropWhile_append2) simp
  then show ?thesis by (simp only: strip_def lstrip_def)
qed

lemma map_strip_split_tail:
  assumes "\<forall>c\<in>set t. isspace c"
  shows "map strip (split (CHR '','') (s @ t)) = map strip (split (CHR '','') s)"
proof -
  have nosep: "CHR '','' \<notin> set t"
    using assms comma_not_space by blast
  have "map strip (split (CHR '','') (s @ t))
          = map strip (butlast (split (CHR '','') s)) @ [strip (last (split (CHR '','') s))]"
    by (simp add: split_append_tail [OF nosep] strip_append_spaces [OF assms])
  also have "\<dots> = map strip (butlast (split (CHR '','') s) @ [last (split (CHR '','') s)])"
    by simp
  also have "\<dots> = map strip (split (CHR '','') s)"
    by (simp add: split_nonempty)
  finally show ?thesis .
qed

lemma map_strip_split_head:
  assumes "\<forall>c\<in>set u. isspace c"
  shows "map strip (split (CHR '','') (u @ s)) = map strip (split (CHR '','') s)"
proof -
  have nosep: "CHR '','' \<notin> set u"
    using assms comma_not_space by blast
  obtain p ps where sp: "split (CHR '','') s = p # ps"
    using split_nonempty [of "CHR '',''" s] by (cases "split (CHR '','') s") auto
  show ?thesis
    by (simp add: split_append_head [OF nosep] sp strip_prepend_spaces [OF assms])
qed

lemma lstrip_decomp: "s = takeWhile isspace s @ lstrip s"
  by (simp add: lstrip_def)

lemma rstrip_decomp: "s = rstrip s @ rev (takeWhile isspace (rev s))"
proof -
  have "rev (takeWhile isspace (rev s) @ dropWhile isspace (rev s)) = s"
    by (simp only: takeWhile_dropWhile_id rev_rev_ident)
  then show ?thesis by (simp only: rev_append rstrip_def)
qed

lemma map_strip_split_strip:
  "map strip (split (CHR '','') (strip s)) = map strip (split (CHR '','') s)"
proof -
  have a: "\<forall>c\<in>set (takeWhile isspace s). isspace c"
    by (auto dest: set_takeWhileD)
  have b: "\<forall>c\<in>set (rev (takeWhile isspace (rev (lstrip s)))). isspace c"
    by (auto dest: set_takeWhileD)
  have "map strip (split (CHR '','') s)
          = map strip (split (CHR '','') (takeWhile isspace s @ lstrip s))"
    using lstrip_decomp [of s] by simp
  also have "\<dots> = map strip (split (CHR '','') (lstrip s))"
    by (rule map_strip_split_head [OF a])
  also have "\<dots> = map strip (split (CHR '','')
                       (rstrip (lstrip s) @ rev (takeWhile isspace (rev (lstrip s)))))"
    using rstrip_decomp [of "lstrip s"] by simp
  also have "\<dots> = map strip (split (CHR '','') (rstrip (lstrip s)))"
    by (rule map_strip_split_tail [OF b])
  finally show ?thesis by (simp add: strip_def)
qed

lemma strip_empty_iff: "strip s = [] \<longleftrightarrow> (\<forall>c\<in>set s. isspace c)"
proof
  assume "strip s = []"
  then have a: "\<forall>x\<in>set (dropWhile isspace s). isspace x"
    by (simp add: strip_def lstrip_def rstrip_def dropWhile_eq_Nil_conv)
  have "dropWhile isspace s = []"
  proof (rule ccontr)
    assume ne: "dropWhile isspace s \<noteq> []"
    then have "\<not> isspace (hd (dropWhile isspace s))"
      by (rule hd_dropWhile)
    moreover from ne have "hd (dropWhile isspace s) \<in> set (dropWhile isspace s)"
      by simp
    ultimately show False using a by blast
  qed
  then show "\<forall>c\<in>set s. isspace c"
    by (simp only: dropWhile_eq_Nil_conv)
next
  assume "\<forall>c\<in>set s. isspace c"
  then have "dropWhile isspace s = []"
    by (simp only: dropWhile_eq_Nil_conv)
  then show "strip s = []"
    by (simp only: strip_def lstrip_def rstrip_def rev.simps dropWhile.simps)
qed

lemma valid_tags_spec:
  "valid_tags reply = filter (\<lambda>tag. tag \<in> set TAG_LIST) (map strip (split (CHR '','') reply))"
  by (simp only: valid_tags_def Let_def map_strip_split_strip)

lemma set_valid_tags: "set (valid_tags reply) \<subseteq> set TAG_LIST"
  by (auto simp: valid_tags_def)

lemma length_valid_tags: "length (valid_tags reply) \<le> Suc (count_list reply (CHR '',''))"
proof -
  have "length (valid_tags reply) \<le> length (split (CHR '','') reply)"
    unfolding valid_tags_spec
    by (metis length_filter_le length_map)
  then show ?thesis by (simp only: length_split)
qed

lemma get_tag_suggestions_cases:
  "fst (get_tag_suggestions w article) =
     (case groq_client w of
        Some e \<Rightarrow> Inl e
      | None \<Rightarrow>
          (case groq_chat w (tag_request (build_prompt w article)) of
             Inr (Some content) \<Rightarrow> Inr (valid_tags content)
           | _ \<Rightarrow> Inr []))"
  by (simp add: get_tag_suggestions_def Let_def split: option.splits sum.splits)

section \<open>The tag vocabulary\<close>

lemma get_tag_suggestions_in_frame: "snd (get_tag_suggestions_in w article g) = g"
  by (simp add: get_tag_suggestions_in_def Let_def split: option.splits sum.splits)

lemma main_loop_frame: "snd (main_loop w access_token articles g) = g"
proof (induction articles arbitrary: g)
  case Nil
  then show ?case by simp
next
  case (Cons entry rest)
  obtain article_id article where entry: "entry = (article_id, article)"
    by (cases entry)
  show ?case
  proof (cases article)
    case (JObj d)
    obtain res tr g1 where run: "get_tag_suggestions_in w d g = ((res, tr), g1)"
      by (metis prod.exhaust)
    with get_tag_suggestions_in_frame [of w d g] have g1: "g1 = g"
      by simp
    show ?thesis
    proof (cases res)
      case (Inl e)
      with entry JObj run g1 show ?thesis by simp
    next
      case (Inr suggested_tags)
      obtain r tr3 g2 where rest: "main_loop w access_token rest g = ((r, tr3), g2)"
        by (metis prod.exhaust)
      with Cons.IH [of g] have "g2 = g" by simp
      with entry JObj run g1 Inr rest show ?thesis
        by (simp split: prod.splits)
    qed
  qed (simp_all add: entry)
qed

lemma main_frame: "snd (main w g) = g"
proof -
  have "\<And>tok arts r tr3 g'. main_loop w tok arts g = ((r, tr3), g') \<Longrightarrow> g' = g"
    using main_loop_frame by (metis snd_conv)
  then show ?thesis
    by (auto simp: main_def Let_def split: prod.splits sum.splits)
qed

lemma get_tag_suggestions_at_load:
  "get_tag_suggestions_in w article module_load = (get_tag_suggestions w article, module_load)"
proof -
  have v: "vocabulary module_load = TAG_LIST"
    by (simp add: module_load_def)
  have p: "build_prompt_in module_load w article = build_prompt w article"
    by (simp only: build_prompt_in_def build_prompt_def v)
  have t: "\<And>content. valid_tags_in module_load content = valid_tags content"
    by (simp only: valid_tags_in_def valid_tags_def v)
  show ?thesis
    by (simp add: get_tag_suggestions_in_def get_tag_suggestions_def p t Let_def
          split: option.splits sum.splits)
qed

text \<open>
  Claim C9, as the code has it: the vocabulary \<open>TAG_LIST\<close> has 38 entries, not 37, and no
  entry occurs twice. It is what the global is bound to when the module is loaded, and no
  operation changes it: \<open>get_tag_suggestions\<close>, the one function that names it, returns
  the globals as it found them, whatever they are, and so does a whole run of \<open>main\<close>,
  which calls every other function of the program.
\<close>

theorem tag_list_38_distinct:
  "length TAG_LIST = 38 \<and> distinct TAG_LIST \<and>
   vocabulary module_load = TAG_LIST \<and>
   snd (get_tag_suggestions_in w article g) = g \<and>
   snd (main w g) = g"
proof -
  have "length TAG_LIST = 38" and "distinct TAG_LIST"
    by (simp_all add: TAG_LIST_def)
  moreover have "vocabulary module_load = TAG_LIST"
    by (simp add: module_load_def)
  ultimately show ?thesis
    using get_tag_suggestions_in_frame [of w article g] main_frame [of w g] by blast
qed

text \<open>The count of 37 that the specification gives does not hold.\<close>

theorem tag_list_not_37: "length TAG_LIST \<noteq> 37"
  by (simp add: TAG_LIST_def)

section \<open>What the classifier returns\<close>

text \<open>
  Claim C1: whatever the LLM replies, every tag that \<open>get_tag_suggestions\<close> returns is an
  entry of \<open>TAG_LIST\<close>. When the reply is the text \<open>reply\<close>, the result is the list of the
  pieces of \<open>reply\<close> between its commas, each stripped of the whitespace around it, without
  the pieces that are not in \<open>TAG_LIST\<close>, in the order of the reply (the code strips the
  whole reply first, which changes nothing). The reply \<open>dev, made-up-tag, tech\<close> gives
  \<open>dev\<close> and \<open>tech\<close>.
\<close>

theorem get_tag_suggestions_vocabulary:
  "(fst (get_tag_suggestions w article) = Inr tags \<longrightarrow> set tags \<subseteq> set TAG_LIST) \<and>
   (groq_client w = None \<and>
    groq_chat w (tag_request (build_prompt w article)) = Inr (Some reply) \<longrightarrow>
      fst (get_tag_suggestions w article) =
        Inr (filter (\<lambda>tag. tag \<in> set TAG_LIST) (map strip (split (CHR '','') reply)))) \<and>
   (groq_client w = None \<and>
    groq_chat w (tag_request (build_prompt w article)) = Inr (Some ''dev, made-up-tag, tech'') \<longrightarrow>
      fst (get_tag_suggestions w article) = Inr [''dev'', ''tech''])"
proof (intro conjI impI)
  assume "fst (get_tag_suggestions w article) = Inr tags"
  then have "tags = [] \<or> (\<exists>content. tags = valid_tags content)"
    by (auto simp: get_tag_suggestions_cases split: option.splits sum.splits)
  then show "set tags \<subseteq> set TAG_LIST"
    using set_valid_tags by auto
next
  assume "groq_client w = None \<and>
    groq_chat w (tag_request (build_prompt w article)) = Inr (Some reply)"
  then show "fst (get_tag_suggestions w article) =
        Inr (filter (\<lambda>tag. tag \<in> set TAG_LIST) (map strip (split (CHR '','') reply)))"
    by (simp add: get_tag_suggestions_cases valid_tags_spec)
next
  have ex: "valid_tags ''dev, made-up-tag, tech'' = [''dev'', ''tech'']"
    by code_simp
  assume "groq_client w = None \<and>
    groq_chat w (tag_request (build_prompt w article)) = Inr (Some ''dev, made-up-tag, tech'')"
  then show "fst (get_tag_suggestions w article) = Inr [''dev'', ''tech'']"
    by (simp add: get_tag_suggestions_cases ex)
qed

theorem get_tag_suggestions_vocabulary_witness:
  "fst (get_tag_suggestions (fixed_world (Inl RequestException)
          (Inr (Some ''dev, made-up-tag, tech''))) []) = Inr [''dev'', ''tech''] \<and>
   set [''dev'', ''tech''] \<subseteq> set TAG_LIST"
proof -
  let ?w = "fixed_world (Inl RequestException) (Inr (Some ''dev, made-up-tag, tech''))"
  note inst = get_tag_suggestions_vocabulary
    [of ?w "[]" "[''dev'', ''tech'']" "''dev, made-up-tag, tech''"]
  have h: "groq_client ?w = None \<and>
           groq_chat ?w (tag_request (build_prompt ?w [])) = Inr (Some ''dev, made-up-tag, tech'')"
    by (simp add: fixed_world_simps)
  from inst h have a: "fst (get_tag_suggestions ?w []) = Inr [''dev'', ''tech'']"
    by blast
  with inst have "set [''dev'', ''tech''] \<subseteq> set TAG_LIST"
    by blast
  with a show ?thesis by blast
qed

text \<open>
  Claim C8, as the code has it: the number of tags returned is at most the number of
  pieces of the reply, one more than the number of its commas, and the list is empty when
  the request fails or has no content. Nothing limits the list to five tags.
\<close>

theorem suggestions_bounded_by_pieces:
  "fst (get_tag_suggestions w article) = Inr tags \<Longrightarrow>
     (case groq_chat w (tag_request (build_prompt w article)) of
        Inr (Some reply) \<Rightarrow> length tags \<le> Suc (count_list reply (CHR '',''))
      | _ \<Rightarrow> tags = [])"
  by (auto simp: get_tag_suggestions_cases length_valid_tags split: sum.splits option.splits)

theorem suggestions_bounded_by_pieces_witness:
  "fst (get_tag_suggestions
          (fixed_world (Inl RequestException) (Inr (Some ''dev, tech, apple, books, math, news'')))
          [])
     = Inr [''dev'', ''tech'', ''apple'', ''books'', ''math'', ''news''] \<and>
   length [''dev'', ''tech'', ''apple'', ''books'', ''math'', ''news'']
     \<le> Suc (count_list ''dev, tech, apple, books, math, news'' (CHR '',''))"
proof -
  let ?w = "fixed_world (Inl RequestException)
              (Inr (Some ''dev, tech, apple, books, math, news''))"
  have "valid_tags ''dev, tech, apple, books, math, news''
          = [''dev'', ''tech'', ''apple'', ''books'', ''math'', ''news'']"
    by code_simp
  then have a: "fst (get_tag_suggestions ?w [])
                  = Inr [''dev'', ''tech'', ''apple'', ''books'', ''math'', ''news'']"
    by (simp add: get_tag_suggestions_cases fixed_world_simps)
  from suggestions_bounded_by_pieces [OF a]
  have "length [''dev'', ''tech'', ''apple'', ''books'', ''math'', ''news'']
          \<le> Suc (count_list ''dev, tech, apple, books, math, news'' (CHR '',''))"
    by (simp only: fixed_world_simps sum.case option.case)
  with a show ?thesis by blast
qed

text \<open>A reply that names six entries of the vocabulary gives six tags.\<close>

theorem suggestions_over_five:
  "fst (get_tag_suggestions
          (fixed_world (Inl RequestException) (Inr (Some ''dev, tech, apple, books, math, news'')))
          [])
     = Inr [''dev'', ''tech'', ''apple'', ''books'', ''math'', ''news''] \<and>
   \<not> length [''dev'', ''tech'', ''apple'', ''books'', ''math'', ''news''] \<le> 5"
proof -
  have "valid_tags ''dev, tech, apple, books, math, news''
          = [''dev'', ''tech'', ''apple'', ''books'', ''math'', ''news'']"
    by code_simp
  then show ?thesis
    by (simp add: get_tag_suggestions_cases fixed_world_simps)
qed

section \<open>The tag writer on an empty list\<close>

text \<open>
  Claim C4: with an empty list of tags, \<open>add_tags_to_article\<close> returns \<open>False\<close> and has
  no effect at all; in particular it sends no HTTP request.
\<close>

theorem add_tags_empty_no_request:
  "add_tags_to_article w token article_id [] = (False, []) \<and>
   \<not> list_ex is_http_post (snd (add_tags_to_article w token article_id []))"
  by (simp add: add_tags_to_article_def)

section \<open>What the article fetcher returns\<close>

lemma untagged_loop_result:
  "untagged_loop acc items = Inr res \<Longrightarrow>
     res = acc @ filter (\<lambda>p. has_no_tags (snd p)) items \<and> (\<forall>p\<in>set items. \<exists>d. snd p = JObj d)"
proof (induction items arbitrary: acc)
  case Nil
  then show ?case by simp
next
  case (Cons entry rest)
  obtain article_id article where entry: "entry = (article_id, article)"
    by (cases entry)
  from Cons.prems entry obtain d where d: "article = JObj d"
    by (cases article) auto
  show ?case
  proof (cases "py_truthy (dict_get d ''tags'')")
    case True
    with Cons.prems entry d have "untagged_loop acc rest = Inr res" by simp
    from Cons.IH [OF this] True entry d show ?thesis by simp
  next
    case False
    with Cons.prems entry d
    have "untagged_loop (acc @ [(article_id, article)]) rest = Inr res" by simp
    from Cons.IH [OF this] False entry d show ?thesis by simp
  qed
qed

lemma untagged_loop_dicts:
  "\<forall>p\<in>set items. \<exists>d. snd p = JObj d \<Longrightarrow>
     untagged_loop acc items = Inr (acc @ filter (\<lambda>p. has_no_tags (snd p)) items)"
proof (induction items arbitrary: acc)
  case Nil
  then show ?case by simp
next
  case (Cons entry rest)
  obtain article_id article where entry: "entry = (article_id, article)"
    by (cases entry)
  from Cons.prems entry obtain d where d: "article = JObj d"
    by auto
  from Cons.prems have rest: "\<forall>p\<in>set rest. \<exists>d. snd p = JObj d"
    by simp
  show ?case
    using Cons.IH [OF rest] entry d by simp
qed

lemma select_untagged_result:
  "select_untagged data = Inr articles \<Longrightarrow>
     (py_in ''list'' data = Inr False \<and> articles = []) \<or>
     (\<exists>items. py_getitem data ''list'' = Inr (JObj items) \<and>
        (\<forall>p\<in>set items. \<exists>d. snd p = JObj d) \<and>
        articles = filter (\<lambda>p. has_no_tags (snd p)) items)"
  by (auto simp: select_untagged_def split: sum.splits bool.splits json.splits
           dest!: untagged_loop_result)

lemma get_unread_articles_result:
  "fst (get_unread_articles w token) =
     (case http_post w fetch_url [] (fetch_payload w token) of
        Inl e \<Rightarrow> Inl e
      | Inr r \<Rightarrow> (case json_body r of Inl e \<Rightarrow> Inl e | Inr data \<Rightarrow> select_untagged data))"
  by (simp add: get_unread_articles_def Let_def split: sum.splits)

lemma has_no_tags_iff:
  "has_no_tags a \<longleftrightarrow>
     (\<exists>d. a = JObj d \<and>
        (map_of d ''tags'' = None \<or> (\<exists>t. map_of d ''tags'' = Some t \<and> \<not> py_truthy t)))"
  by (cases a) (auto simp: dict_get_def dict_get_default_def split: option.splits)

lemma scenario_selected:
  "select_untagged scenario_fetch =
     Inr [(''1'', JObj [(''resolved_title'', JStr ''X''), (''tags'', JObj [])])]"
  by (simp add: select_untagged_def scenario_fetch_def dict_get_def dict_get_default_def)

text \<open>
  Claim C2: every pair that \<open>get_unread_articles\<close> returns has a record with no \<open>tags\<close>
  entry, or with one that Python takes as false (an empty dict, list or string, \<open>None\<close>,
  \<open>False\<close>, zero). The pairs are entries of the \<open>list\<close> of the response, and an entry
  whose \<open>tags\<close> are a dict that is not empty is never among them. The scenario's response
  gives the one pair of identifier \<open>1\<close>.
\<close>

theorem get_unread_articles_only_untagged:
  "(fst (get_unread_articles w token) = Inr articles \<longrightarrow>
      (\<forall>p\<in>set articles. \<exists>d. snd p = JObj d \<and>
          (map_of d ''tags'' = None \<or>
           (\<exists>t. map_of d ''tags'' = Some t \<and> \<not> py_truthy t)))) \<and>
   (fst (get_unread_articles w token) = Inr articles \<and>
    http_post w fetch_url [] (fetch_payload w token) = Inr r \<and>
    json_body r = Inr data \<and> py_getitem data ''list'' = Inr (JObj items) \<longrightarrow>
      set articles \<subseteq> set items \<and>
      (\<forall>p\<in>set items. \<forall>d t ts. snd p = JObj d \<and> map_of d ''tags'' = Some (JObj (t # ts))
          \<longrightarrow> p \<notin> set articles)) \<and>
   (http_post w fetch_url [] (fetch_payload w token) = Inr r \<and>
    json_body r = Inr scenario_fetch \<longrightarrow>
      fst (get_unread_articles w token) =
        Inr [(''1'', JObj [(''resolved_title'', JStr ''X''), (''tags'', JObj [])])])"
proof (intro conjI impI)
  assume ret: "fst (get_unread_articles w token) = Inr articles"
  then obtain data where "select_untagged data = Inr articles"
    by (auto simp: get_unread_articles_result split: sum.splits)
  then have "\<forall>p\<in>set articles. has_no_tags (snd p)"
    by (auto dest!: select_untagged_result)
  then show "\<forall>p\<in>set articles. \<exists>d. snd p = JObj d \<and>
          (map_of d ''tags'' = None \<or>
           (\<exists>t. map_of d ''tags'' = Some t \<and> \<not> py_truthy t))"
    by (simp only: has_no_tags_iff)
next
  assume a: "fst (get_unread_articles w token) = Inr articles \<and>
    http_post w fetch_url [] (fetch_payload w token) = Inr r \<and>
    json_body r = Inr data \<and> py_getitem data ''list'' = Inr (JObj items)"
  then have "select_untagged data = Inr articles"
    by (auto simp: get_unread_articles_result)
  from this [THEN select_untagged_result] a
  have eq: "articles = filter (\<lambda>p. has_no_tags (snd p)) items"
    by (cases data) (auto simp: map_of_eq_None_iff [symmetric] split: option.splits)
  then show "set articles \<subseteq> set items"
    by auto
  show "\<forall>p\<in>set items. \<forall>d t ts. snd p = JObj d \<and> map_of d ''tags'' = Some (JObj (t # ts))
          \<longrightarrow> p \<notin> set articles"
    using eq by (auto simp: dict_get_def dict_get_default_def)
next
  assume "http_post w fetch_url [] (fetch_payload w token) = Inr r \<and>
    json_body r = Inr scenario_fetch"
  then show "fst (get_unread_articles w token) =
        Inr [(''1'', JObj [(''resolved_title'', JStr ''X''), (''tags'', JObj [])])]"
    by (simp add: get_unread_articles_result scenario_selected)
qed

theorem get_unread_articles_only_untagged_witness:
  "fst (get_unread_articles
          (fixed_world (Inr (a_response 200 None ''scenario'' (Inr scenario_fetch))) (Inl GroqError))
          (JStr ''token''))
     = Inr [(''1'', JObj [(''resolved_title'', JStr ''X''), (''tags'', JObj [])])] \<and>
   map_of [(''resolved_title'', JStr ''X''), (''tags'', JObj [])] ''tags'' = Some (JObj []) \<and>
   \<not> py_truthy (JObj [])"
proof -
  let ?r = "a_response 200 None ''scenario'' (Inr scenario_fetch)"
  let ?w = "fixed_world (Inr ?r) (Inl GroqError)"
  let ?one = "[(''1'', JObj [(''resolved_title'', JStr ''X''), (''tags'', JObj [])])]"
  note inst = get_unread_articles_only_untagged
    [of ?w "JStr ''token''" ?one ?r scenario_fetch
        "[(''1'', JObj [(''resolved_title'', JStr ''X''), (''tags'', JObj [])]),
          (''2'', JObj [(''resolved_title'', JStr ''Y''), (''tags'', JObj [(''a'', JInt 1)])])]"]
  have h: "http_post ?w fetch_url [] (fetch_payload ?w (JStr ''token'')) = Inr ?r \<and>
           json_body ?r = Inr scenario_fetch"
    by (simp add: fixed_world_simps a_response_simps)
  from inst h have a: "fst (get_unread_articles ?w (JStr ''token'')) = Inr ?one"
    by blast
  with inst have "\<forall>p\<in>set ?one. \<exists>d. snd p = JObj d \<and>
          (map_of d ''tags'' = None \<or>
           (\<exists>t. map_of d ''tags'' = Some t \<and> \<not> py_truthy t))"
    by blast
  then have "\<not> py_truthy (JObj [])" by simp
  with a show ?thesis by simp
qed

text \<open>
  Claim C10, as the code has it: when the decoded body is a dict without the key \<open>list\<close>
  (or an array or a string in which \<open>"list" in data\<close> is false), the result is the empty
  list and nothing is raised. When the body is a dict whose \<open>list\<close> entry is a dict and
  every value of that dict is a dict (an article record), the result is the list of the
  entries that pass the test, in the order they have in the response.
\<close>

theorem get_unread_articles_no_list_key:
  "(http_post w fetch_url [] (fetch_payload w token) = Inr r \<and>
    json_body r = Inr (JObj data) \<and> ''list'' \<notin> set (map fst data) \<longrightarrow>
      fst (get_unread_articles w token) = Inr []) \<and>
   (http_post w fetch_url [] (fetch_payload w token) = Inr r \<and>
    json_body r = Inr body \<and> py_in ''list'' body = Inr False \<longrightarrow>
      fst (get_unread_articles w token) = Inr []) \<and>
   (http_post w fetch_url [] (fetch_payload w token) = Inr r \<and>
    json_body r = Inr (JObj data) \<and> map_of data ''list'' = Some (JObj items) \<and>
    (\<forall>p\<in>set items. \<exists>d. snd p = JObj d) \<longrightarrow>
      fst (get_unread_articles w token) = Inr (filter (\<lambda>p. has_no_tags (snd p)) items))"
proof (intro conjI impI)
  assume "http_post w fetch_url [] (fetch_payload w token) = Inr r \<and>
    json_body r = Inr (JObj data) \<and> ''list'' \<notin> set (map fst data)"
  then show "fst (get_unread_articles w token) = Inr []"
    by (simp add: get_unread_articles_result select_untagged_def)
next
  assume "http_post w fetch_url [] (fetch_payload w token) = Inr r \<and>
    json_body r = Inr body \<and> py_in ''list'' body = Inr False"
  then show "fst (get_unread_articles w token) = Inr []"
    by (simp add: get_unread_articles_result select_untagged_def)
next
  assume a: "http_post w fetch_url [] (fetch_payload w token) = Inr r \<and>
    json_body r = Inr (JObj data) \<and> map_of data ''list'' = Some (JObj items) \<and>
    (\<forall>p\<in>set items. \<exists>d. snd p = JObj d)"
  then have "''list'' \<in> set (map fst data)"
    by (auto dest: map_of_SomeD intro: rev_image_eqI)
  with a show "fst (get_unread_articles w token) = Inr (filter (\<lambda>p. has_no_tags (snd p)) items)"
    using untagged_loop_dicts [of items "[]"]
    by (simp add: get_unread_articles_result select_untagged_def)
qed

theorem get_unread_articles_no_list_key_witness:
  "fst (get_unread_articles
          (fixed_world (Inr (a_response 200 None ''no list'' (Inr (JObj [(''status'', JInt 1)]))))
             (Inl GroqError))
          (JStr ''token'')) = Inr [] \<and>
   fst (get_unread_articles
          (fixed_world (Inr (a_response 200 None ''[]'' (Inr (JArr [])))) (Inl GroqError))
          (JStr ''token'')) = Inr [] \<and>
   fst (get_unread_articles
          (fixed_world (Inr (a_response 200 None ''scenario'' (Inr scenario_fetch))) (Inl GroqError))
          (JStr ''token''))
     = Inr [(''1'', JObj [(''resolved_title'', JStr ''X''), (''tags'', JObj [])])]"
proof -
  let ?r1 = "a_response 200 None ''no list'' (Inr (JObj [(''status'', JInt 1)]))"
  let ?w1 = "fixed_world (Inr ?r1) (Inl GroqError)"
  let ?r2 = "a_response 200 None ''scenario'' (Inr scenario_fetch)"
  let ?w2 = "fixed_world (Inr ?r2) (Inl GroqError)"
  let ?r3 = "a_response 200 None ''[]'' (Inr (JArr []))"
  let ?w3 = "fixed_world (Inr ?r3) (Inl GroqError)"
  let ?items = "[(''1'', JObj [(''resolved_title'', JStr ''X''), (''tags'', JObj [])]),
          (''2'', JObj [(''resolved_title'', JStr ''Y''), (''tags'', JObj [(''a'', JInt 1)])])]"
  have h1: "http_post ?w1 fetch_url [] (fetch_payload ?w1 (JStr ''token'')) = Inr ?r1 \<and>
            json_body ?r1 = Inr (JObj [(''status'', JInt 1)]) \<and>
            ''list'' \<notin> set (map fst [(''status'', JInt 1)])"
    by (simp add: fixed_world_simps a_response_simps)
  from get_unread_articles_no_list_key
         [of ?w1 "JStr ''token''" ?r1 "[(''status'', JInt 1)]" JNull "[]"] h1
  have a: "fst (get_unread_articles ?w1 (JStr ''token'')) = Inr []"
    by blast
  have h3: "http_post ?w3 fetch_url [] (fetch_payload ?w3 (JStr ''token'')) = Inr ?r3 \<and>
            json_body ?r3 = Inr (JArr []) \<and> py_in ''list'' (JArr []) = Inr False"
    by (simp add: fixed_world_simps a_response_simps)
  from get_unread_articles_no_list_key
         [of ?w3 "JStr ''token''" ?r3 "[]" "JArr []" "[]"] h3
  have c: "fst (get_unread_articles ?w3 (JStr ''token'')) = Inr []"
    by blast
  have h2: "http_post ?w2 fetch_url [] (fetch_payload ?w2 (JStr ''token'')) = Inr ?r2 \<and>
            json_body ?r2 = Inr (JObj [(''list'', JObj ?items)]) \<and>
            map_of [(''list'', JObj ?items)] ''list'' = Some (JObj ?items) \<and>
            (\<forall>p\<in>set ?items. \<exists>d. snd p = JObj d)"
    by (simp add: fixed_world_simps a_response_simps scenario_fetch_def)
  from get_unread_articles_no_list_key
         [of ?w2 "JStr ''token''" ?r2 "[(''list'', JObj ?items)]" JNull ?items] h2
  have "fst (get_unread_articles ?w2 (JStr ''token''))
          = Inr (filter (\<lambda>p. has_no_tags (snd p)) ?items)"
    by blast
  then have b: "fst (get_unread_articles ?w2 (JStr ''token''))
          = Inr [(''1'', JObj [(''resolved_title'', JStr ''X''), (''tags'', JObj [])])]"
    by (simp add: dict_get_def dict_get_default_def)
  from a c b show ?thesis by blast
qed

text \<open>
  The claim as the specification states it, for every fetch response, fails where the
  decoded body has another shape: a \<open>list\<close> entry that is an empty array has no
  \<open>items\<close>, a body that is \<open>null\<close> cannot be searched for a key, and an entry of the
  \<open>list\<close> that is a number has no \<open>get\<close>. Each of the three raises.
\<close>

theorem fetch_response_shapes_raise:
  "fst (get_unread_articles
          (fixed_world (Inr (a_response 200 None ''empty list'' (Inr (JObj [(''list'', JArr [])]))))
             (Inl GroqError))
          (JStr ''token'')) = Inl AttributeError \<and>
   fst (get_unread_articles
          (fixed_world (Inr (a_response 200 None ''null'' (Inr JNull))) (Inl GroqError))
          (JStr ''token'')) = Inl TypeError \<and>
   fst (get_unread_articles
          (fixed_world (Inr (a_response 200 None ''number entry''
                               (Inr (JObj [(''list'', JObj [(''1'', JInt 5)])]))))
             (Inl GroqError))
          (JStr ''token'')) = Inl AttributeError"
  by (simp add: get_unread_articles_result select_untagged_def fixed_world_simps
        a_response_simps)

section \<open>What the tag writer returns\<close>

lemma send_tags_result:
  "fst (send_tags w url payload article_id tags) =
     (case http_post w url [] payload of
        Inl e \<Rightarrow> Inl e
      | Inr r \<Rightarrow>
          (if 400 \<le> status_code r \<and> status_code r < 600 then Inl (HTTPError (status_code r))
           else (case json_body r of
                   Inl e \<Rightarrow> Inl e
                 | Inr (JObj data) \<Rightarrow>
                     Inr (py_eq_int (dict_get_default data ''status'' (JInt 0)) 1)
                 | Inr _ \<Rightarrow> Inl AttributeError)))"
  by (simp add: send_tags_def Let_def raise_for_status_def split: sum.splits json.splits)

lemma add_tags_result:
  "tags \<noteq> [] \<Longrightarrow>
     fst (add_tags_to_article w token article_id tags) =
       (case fst (send_tags w send_url (tags_payload w token article_id tags) article_id tags) of
          Inl e \<Rightarrow> False
        | Inr ok \<Rightarrow> ok)"
  by (simp add: add_tags_to_article_def split: prod.splits sum.splits)

lemma status_field_eq_1:
  "py_eq_int (dict_get_default data ''status'' (JInt 0)) 1 \<longleftrightarrow>
     (\<exists>v. map_of data ''status'' = Some v \<and> py_eq_int v 1)"
  by (simp add: dict_get_default_def split: option.splits)

text \<open>
  Claim C3: for a list of tags that is not empty, \<open>add_tags_to_article\<close> returns \<open>True\<close>
  exactly when the request gave a response, \<open>raise_for_status\<close> did not raise on it (its
  status is not from 400 to 599), its body decodes to a dict, and the dict has a \<open>status\<close>
  entry equal to 1 (by \<open>==\<close>). Every exception of the \<open>try\<close> block gives \<open>False\<close>, and
  the function has no outcome but a boolean. With \<open>{"status": 1}\<close> the result is \<open>True\<close>;
  with \<open>{"status": 0}\<close> or without the entry it is \<open>False\<close>.
\<close>

theorem add_tags_status_field:
  "tags \<noteq> [] \<Longrightarrow>
     (fst (add_tags_to_article w token article_id tags) \<longleftrightarrow>
        (\<exists>r data v.
            http_post w send_url [] (tags_payload w token article_id tags) = Inr r \<and>
            \<not> (400 \<le> status_code r \<and> status_code r < 600) \<and>
            json_body r = Inr (JObj data) \<and>
            map_of data ''status'' = Some v \<and> py_eq_int v 1)) \<and>
     (\<forall>e. fst (send_tags w send_url (tags_payload w token article_id tags) article_id tags)
             = Inl e \<longrightarrow>
          \<not> fst (add_tags_to_article w token article_id tags)) \<and>
     (\<forall>r. http_post w send_url [] (tags_payload w token article_id tags) = Inr r \<and>
          \<not> (400 \<le> status_code r \<and> status_code r < 600) \<and>
          json_body r = Inr (JObj [(''status'', JInt 1)]) \<longrightarrow>
          fst (add_tags_to_article w token article_id tags)) \<and>
     (\<forall>r. http_post w send_url [] (tags_payload w token article_id tags) = Inr r \<and>
          json_body r = Inr (JObj [(''status'', JInt 0)]) \<longrightarrow>
          \<not> fst (add_tags_to_article w token article_id tags)) \<and>
     (\<forall>r data. http_post w send_url [] (tags_payload w token article_id tags) = Inr r \<and>
          json_body r = Inr (JObj data) \<and> map_of data ''status'' = None \<longrightarrow>
          \<not> fst (add_tags_to_article w token article_id tags))"
proof -
  assume ne: "tags \<noteq> []"
  let ?send = "fst (send_tags w send_url (tags_payload w token article_id tags) article_id tags)"
  let ?ok = "\<exists>r data v.
            http_post w send_url [] (tags_payload w token article_id tags) = Inr r \<and>
            \<not> (400 \<le> status_code r \<and> status_code r < 600) \<and>
            json_body r = Inr (JObj data) \<and>
            map_of data ''status'' = Some v \<and> py_eq_int v 1"
  have res: "fst (add_tags_to_article w token article_id tags)
               = (case ?send of Inl e \<Rightarrow> False | Inr ok \<Rightarrow> ok)"
    by (rule add_tags_result [OF ne])
  have iff: "fst (add_tags_to_article w token article_id tags) \<longleftrightarrow> ?ok"
  proof
    assume "fst (add_tags_to_article w token article_id tags)"
    with res have "?send = Inr True"
      by (cases ?send) auto
    then show ?ok
      by (auto simp: send_tags_result status_field_eq_1
               split: sum.splits if_splits json.splits)
  next
    assume ?ok
    then have "?send = Inr True"
      by (auto simp: send_tags_result status_field_eq_1)
    with res show "fst (add_tags_to_article w token article_id tags)"
      by simp
  qed
  have caught: "\<forall>e. ?send = Inl e \<longrightarrow> \<not> fst (add_tags_to_article w token article_id tags)"
    using res by simp
  have one: "\<forall>r. http_post w send_url [] (tags_payload w token article_id tags) = Inr r \<and>
          \<not> (400 \<le> status_code r \<and> status_code r < 600) \<and>
          json_body r = Inr (JObj [(''status'', JInt 1)]) \<longrightarrow>
          fst (add_tags_to_article w token article_id tags)"
    unfolding iff by fastforce
  have zero: "\<forall>r. http_post w send_url [] (tags_payload w token article_id tags) = Inr r \<and>
          json_body r = Inr (JObj [(''status'', JInt 0)]) \<longrightarrow>
          \<not> fst (add_tags_to_article w token article_id tags)"
    unfolding iff by auto
  have missing: "\<forall>r data. http_post w send_url [] (tags_payload w token article_id tags) = Inr r \<and>
          json_body r = Inr (JObj data) \<and> map_of data ''status'' = None \<longrightarrow>
          \<not> fst (add_tags_to_article w token article_id tags)"
    unfolding iff by auto
  from iff caught one zero missing show ?thesis by blast
qed

theorem add_tags_status_field_witness:
  "[''dev''] \<noteq> [] \<and>
   fst (add_tags_to_article
          (fixed_world (Inr (a_response 200 None ''status 1'' (Inr (JObj [(''status'', JInt 1)]))))
             (Inl GroqError))
          (JStr ''token'') ''1'' [''dev''])"
proof -
  let ?r = "a_response 200 None ''status 1'' (Inr (JObj [(''status'', JInt 1)]))"
  let ?w = "fixed_world (Inr ?r) (Inl GroqError)"
  have ne: "[''dev''] \<noteq> []" by simp
  have h: "http_post ?w send_url [] (tags_payload ?w (JStr ''token'') ''1'' [''dev'']) = Inr ?r \<and>
           \<not> (400 \<le> status_code ?r \<and> status_code ?r < 600) \<and>
           json_body ?r = Inr (JObj [(''status'', JInt 1)])"
    by (simp add: fixed_world_simps a_response_simps)
  from add_tags_status_field [OF ne, of ?w "JStr ''token''" "''1''"] h
  have "fst (add_tags_to_article ?w (JStr ''token'') ''1'' [''dev''])"
    by blast
  with ne show ?thesis by blast
qed

section \<open>What the HTTP client wrapper returns\<close>

lemma post_with_error_header:
  assumes "http_post w url post_headers data = Inr r"
      and "x_error r = Some err" and "err \<noteq> []"
  shows "post w url data =
           ((if 400 \<le> status_code r \<and> status_code r < 600
             then Inl (HTTPError (status_code r)) else Inr JNull),
            [HttpPost url post_headers data,
             Print (MsgStatusCode (status_code r)),
             Print (MsgResponseText (body_text r)),
             LogError (status_code r) err])"
  using assms by (simp add: post_def Let_def raise_for_status_def)

lemma post_without_error_header:
  assumes "http_post w url post_headers data = Inr r"
      and "x_error r = None \<or> x_error r = Some []"
  shows "post w url data =
           ((if strip (body_text r) \<noteq> [] then json_body r else Inr (JObj [])),
            [HttpPost url post_headers data,
             Print (MsgStatusCode (status_code r)),
             Print (MsgResponseText (body_text r))])"
  using assms by (auto simp: post_def Let_def)

lemma post_request_failed:
  assumes "http_post w url post_headers data = Inl e"
  shows "post w url data = (Inl e, [HttpPost url post_headers data])"
  using assms by (simp add: post_def)

text \<open>
  Claim C5, as the code has it. The test \<open>if error\<close> takes an error header that is there
  and not empty: then the header is logged, and for a status from 400 to 599
  \<open>raise_for_status\<close> raises the HTTP error. When the header is missing or empty nothing
  is logged, a body of whitespace only (or an empty one) gives the empty dict, and any
  other body gives what the decoder gives for it, value or exception.
\<close>

theorem post_by_error_header:
  "http_post w url post_headers data = Inr r \<Longrightarrow>
     (\<forall>err. x_error r = Some err \<and> err \<noteq> [] \<longrightarrow>
        LogError (status_code r) err \<in> set (snd (post w url data)) \<and>
        (400 \<le> status_code r \<and> status_code r < 600 \<longrightarrow>
           fst (post w url data) = Inl (HTTPError (status_code r)))) \<and>
     ((x_error r = None \<or> x_error r = Some []) \<and> (\<forall>c\<in>set (body_text r). isspace c) \<longrightarrow>
        fst (post w url data) = Inr (JObj []) \<and>
        \<not> list_ex is_log_error (snd (post w url data))) \<and>
     ((x_error r = None \<or> x_error r = Some []) \<and> \<not> (\<forall>c\<in>set (body_text r). isspace c) \<longrightarrow>
        fst (post w url data) = json_body r \<and>
        \<not> list_ex is_log_error (snd (post w url data)))"
proof -
  assume r: "http_post w url post_headers data = Inr r"
  show ?thesis
  proof (intro conjI allI impI)
    fix err assume "x_error r = Some err \<and> err \<noteq> []"
    then show "LogError (status_code r) err \<in> set (snd (post w url data))"
      using post_with_error_header [OF r] by simp
  next
    fix err
    assume "x_error r = Some err \<and> err \<noteq> []"
       and "400 \<le> status_code r \<and> status_code r < 600"
    then show "fst (post w url data) = Inl (HTTPError (status_code r))"
      using post_with_error_header [OF r] by simp
  next
    assume a: "(x_error r = None \<or> x_error r = Some []) \<and> (\<forall>c\<in>set (body_text r). isspace c)"
    then have "strip (body_text r) = []"
      by (simp add: strip_empty_iff)
    with a post_without_error_header [OF r]
    show "fst (post w url data) = Inr (JObj [])"
      and "\<not> list_ex is_log_error (snd (post w url data))"
      by simp_all
  next
    assume a: "(x_error r = None \<or> x_error r = Some []) \<and>
               \<not> (\<forall>c\<in>set (body_text r). isspace c)"
    then have "strip (body_text r) \<noteq> []"
      by (simp add: strip_empty_iff)
    with a post_without_error_header [OF r]
    show "fst (post w url data) = json_body r"
      and "\<not> list_ex is_log_error (snd (post w url data))"
      by simp_all
  qed
qed

theorem post_by_error_header_witness:
  "fst (post (fixed_world (Inr (a_response 403 (Some ''Forbidden'') [] (Inl JSONDecodeError)))
               (Inl GroqError)) code_url JNull) = Inl (HTTPError 403) \<and>
   LogError 403 ''Forbidden''
     \<in> set (snd (post (fixed_world (Inr (a_response 403 (Some ''Forbidden'') []
                                          (Inl JSONDecodeError))) (Inl GroqError)) code_url JNull)) \<and>
   fst (post (fixed_world (Inr (a_response 200 None '' '' (Inl JSONDecodeError)))
               (Inl GroqError)) code_url JNull) = Inr (JObj []) \<and>
   fst (post (fixed_world (Inr (a_response 200 None ''[1]'' (Inr (JArr [JInt 1]))))
               (Inl GroqError)) code_url JNull) = Inr (JArr [JInt 1])"
proof -
  let ?r1 = "a_response 403 (Some ''Forbidden'') [] (Inl JSONDecodeError)"
  let ?w1 = "fixed_world (Inr ?r1) (Inl GroqError)"
  let ?r2 = "a_response 200 None '' '' (Inl JSONDecodeError)"
  let ?w2 = "fixed_world (Inr ?r2) (Inl GroqError)"
  let ?r3 = "a_response 200 None ''[1]'' (Inr (JArr [JInt 1]))"
  let ?w3 = "fixed_world (Inr ?r3) (Inl GroqError)"
  have h1: "http_post ?w1 code_url post_headers JNull = Inr ?r1"
    by (simp add: fixed_world_simps)
  have h2: "http_post ?w2 code_url post_headers JNull = Inr ?r2"
    by (simp add: fixed_world_simps)
  have h3: "http_post ?w3 code_url post_headers JNull = Inr ?r3"
    by (simp add: fixed_world_simps)
  have c1: "x_error ?r1 = Some ''Forbidden'' \<and> ''Forbidden'' \<noteq> []"
    and s1: "400 \<le> status_code ?r1 \<and> status_code ?r1 < 600" "status_code ?r1 = 403"
    by (simp_all add: a_response_simps)
  have c2: "(x_error ?r2 = None \<or> x_error ?r2 = Some []) \<and> (\<forall>c\<in>set (body_text ?r2). isspace c)"
    by (simp add: a_response_simps isspace_def)
  have c3: "(x_error ?r3 = None \<or> x_error ?r3 = Some []) \<and>
            \<not> (\<forall>c\<in>set (body_text ?r3). isspace c)"
    by (simp add: a_response_simps isspace_def)
  have j3: "json_body ?r3 = Inr (JArr [JInt 1])"
    by (simp add: a_response_simps)
  from post_by_error_header [OF h1] c1 s1
  have a: "fst (post ?w1 code_url JNull) = Inl (HTTPError 403)"
    and b: "LogError 403 ''Forbidden'' \<in> set (snd (post ?w1 code_url JNull))"
    by metis+
  from post_by_error_header [OF h2] c2
  have c: "fst (post ?w2 code_url JNull) = Inr (JObj [])"
    by blast
  from post_by_error_header [OF h3] c3 j3
  have d: "fst (post ?w3 code_url JNull) = Inr (JArr [JInt 1])"
    by metis
  from a b c d show ?thesis by blast
qed

text \<open>
  The claim as the specification states it fails on two responses. With the error header
  \<open>oops\<close> and the status 200, \<open>raise_for_status\<close> has nothing to raise, the branch ends
  without a \<open>return\<close>, and \<open>post\<close> returns \<open>None\<close>. With an error header that is
  present and empty, on a status 403, the header is taken as missing and the body is
  decoded.
\<close>

theorem post_error_header_not_failing:
  "fst (post (fixed_world (Inr (a_response 200 (Some ''oops'') ''{}'' (Inr (JObj []))))
               (Inl GroqError)) code_url JNull) = Inr JNull \<and>
   fst (post (fixed_world (Inr (a_response 403 (Some []) ''{}'' (Inr (JObj []))))
               (Inl GroqError)) code_url JNull) = Inr (JObj [])"
  by (simp add: post_def Let_def raise_for_status_def fixed_world_simps a_response_simps
        strip_def lstrip_def rstrip_def isspace_def)

section \<open>The order of the OAuth flow\<close>

lemma post_trace_quiet:
  "\<forall>ev\<in>set (snd (post w code_url data)). \<not> is_browser_open ev \<and> \<not> is_post_to token_url ev"
  by (auto simp: post_def Let_def code_url_def token_url_def
           split: sum.splits option.splits if_splits)

lemma request_code_result:
  "request_code w =
     (case fst (post w code_url (code_payload w)) of
        Inl e \<Rightarrow> Inl e
      | Inr resp \<Rightarrow> py_getitem resp ''code'',
      snd (post w code_url (code_payload w)))"
  by (simp add: request_code_def split: prod.splits sum.splits)

lemma authenticate_pocket_failed:
  "fst (request_code w) = Inl e \<Longrightarrow> authenticate_pocket w = (Inl e, snd (request_code w))"
  by (cases "request_code w") (simp add: authenticate_pocket_def)

lemma authenticate_pocket_prefix:
  "\<exists>rest. snd (authenticate_pocket w) = snd (request_code w) @ rest"
  by (cases "request_code w")
     (auto simp: authenticate_pocket_def Let_def split: sum.splits option.splits prod.splits)

text \<open>
  Claim C6, as the code has it: when \<open>request_code\<close> fails, \<open>authenticate_pocket\<close> fails
  with the same exception, and its trace has no browser window and no request to the
  authorize endpoint. In every run the trace of \<open>authenticate_pocket\<close> begins with that of
  \<open>request_code\<close>, which has neither of the two effects, so a browser window or a token
  exchange in the trace means that \<open>request_code\<close> returned a code. The step fails on an
  error status (400 to 599) that comes with an error header that is not empty, and on a
  response without the entry \<open>code\<close>; a status outside the 2xx range is no failure by
  itself.
\<close>

theorem authenticate_pocket_code_first:
  "(\<forall>e. fst (request_code w) = Inl e \<longrightarrow>
        fst (authenticate_pocket w) = Inl e \<and>
        \<not> list_ex is_browser_open (snd (authenticate_pocket w)) \<and>
        \<not> list_ex (is_post_to token_url) (snd (authenticate_pocket w))) \<and>
   (list_ex is_browser_open (snd (authenticate_pocket w)) \<or>
    list_ex (is_post_to token_url) (snd (authenticate_pocket w)) \<longrightarrow>
      (\<exists>code. fst (request_code w) = Inr code)) \<and>
   (\<exists>rest. snd (authenticate_pocket w) = snd (request_code w) @ rest) \<and>
   \<not> list_ex is_browser_open (snd (request_code w)) \<and>
   \<not> list_ex (is_post_to token_url) (snd (request_code w)) \<and>
   (\<forall>r err. http_post w code_url post_headers (code_payload w) = Inr r \<and>
        x_error r = Some err \<and> err \<noteq> [] \<and> 400 \<le> status_code r \<and> status_code r < 600 \<longrightarrow>
        fst (request_code w) = Inl (HTTPError (status_code r))) \<and>
   (\<forall>d. fst (post w code_url (code_payload w)) = Inr (JObj d) \<and> map_of d ''code'' = None \<longrightarrow>
        fst (request_code w) = Inl (KeyError ''code''))"
proof -
  have quiet: "\<not> list_ex is_browser_open (snd (request_code w)) \<and>
               \<not> list_ex (is_post_to token_url) (snd (request_code w))"
    using post_trace_quiet [of w "code_payload w"]
    by (simp add: request_code_result list_ex_iff)
  have failed: "\<forall>e. fst (request_code w) = Inl e \<longrightarrow>
        fst (authenticate_pocket w) = Inl e \<and>
        \<not> list_ex is_browser_open (snd (authenticate_pocket w)) \<and>
        \<not> list_ex (is_post_to token_url) (snd (authenticate_pocket w))"
    using quiet by (auto dest!: authenticate_pocket_failed)
  have status: "\<forall>r err. http_post w code_url post_headers (code_payload w) = Inr r \<and>
        x_error r = Some err \<and> err \<noteq> [] \<and> 400 \<le> status_code r \<and> status_code r < 600 \<longrightarrow>
        fst (request_code w) = Inl (HTTPError (status_code r))"
    by (auto simp: request_code_result dest!: post_with_error_header)
  have missing: "\<forall>d. fst (post w code_url (code_payload w)) = Inr (JObj d) \<and>
        map_of d ''code'' = None \<longrightarrow> fst (request_code w) = Inl (KeyError ''code'')"
    by (simp add: request_code_result)
  have after: "list_ex is_browser_open (snd (authenticate_pocket w)) \<or>
    list_ex (is_post_to token_url) (snd (authenticate_pocket w)) \<longrightarrow>
      (\<exists>code. fst (request_code w) = Inr code)"
    using failed by (cases "fst (request_code w)") auto
  from failed after authenticate_pocket_prefix [of w] quiet status missing
  show ?thesis by blast
qed

theorem authenticate_pocket_code_first_witness:
  "fst (request_code (fixed_world (Inr (a_response 200 None ''{}'' (Inr (JObj []))))
                        (Inl GroqError))) = Inl (KeyError ''code'') \<and>
   fst (authenticate_pocket (fixed_world (Inr (a_response 200 None ''{}'' (Inr (JObj []))))
                        (Inl GroqError))) = Inl (KeyError ''code'') \<and>
   \<not> list_ex is_browser_open
        (snd (authenticate_pocket (fixed_world (Inr (a_response 200 None ''{}'' (Inr (JObj []))))
                        (Inl GroqError)))) \<and>
   \<not> list_ex (is_post_to token_url)
        (snd (authenticate_pocket (fixed_world (Inr (a_response 200 None ''{}'' (Inr (JObj []))))
                        (Inl GroqError)))) \<and>
   fst (request_code (fixed_world (Inr (a_response 403 (Some ''Forbidden'') [] (Inl JSONDecodeError)))
                        (Inl GroqError))) = Inl (HTTPError 403) \<and>
   fst (authenticate_pocket
          (fixed_world (Inr (a_response 403 (Some ''Forbidden'') [] (Inl JSONDecodeError)))
             (Inl GroqError))) = Inl (HTTPError 403) \<and>
   \<not> list_ex is_browser_open
        (snd (authenticate_pocket
           (fixed_world (Inr (a_response 403 (Some ''Forbidden'') [] (Inl JSONDecodeError)))
              (Inl GroqError)))) \<and>
   \<not> list_ex (is_post_to token_url)
        (snd (authenticate_pocket
           (fixed_world (Inr (a_response 403 (Some ''Forbidden'') [] (Inl JSONDecodeError)))
              (Inl GroqError)))) \<and>
   list_ex is_browser_open
        (snd (authenticate_pocket
           (fixed_world (Inr (a_response 200 None ''code''
                                (Inr (JObj [(''code'', JStr ''abc'')])))) (Inl GroqError))))"
proof -
  let ?r = "a_response 200 None ''{}'' (Inr (JObj []))"
  let ?w = "fixed_world (Inr ?r) (Inl GroqError)"
  let ?r3 = "a_response 403 (Some ''Forbidden'') [] (Inl JSONDecodeError)"
  let ?w3 = "fixed_world (Inr ?r3) (Inl GroqError)"
  let ?w2 = "fixed_world (Inr (a_response 200 None ''code''
                                (Inr (JObj [(''code'', JStr ''abc'')])))) (Inl GroqError)"
  have p: "fst (post ?w code_url (code_payload ?w)) = Inr (JObj [])"
    by (simp add: post_def Let_def fixed_world_simps a_response_simps
          strip_def lstrip_def rstrip_def isspace_def)
  then have h: "fst (post ?w code_url (code_payload ?w)) = Inr (JObj []) \<and>
                map_of ([] :: pydict) ''code'' = None"
    by simp
  from authenticate_pocket_code_first [of ?w] h
  have a: "fst (request_code ?w) = Inl (KeyError ''code'')"
    by blast
  with authenticate_pocket_code_first [of ?w]
  have b: "fst (authenticate_pocket ?w) = Inl (KeyError ''code'') \<and>
        \<not> list_ex is_browser_open (snd (authenticate_pocket ?w)) \<and>
        \<not> list_ex (is_post_to token_url) (snd (authenticate_pocket ?w))"
    by blast
  have h3: "http_post ?w3 code_url post_headers (code_payload ?w3) = Inr ?r3 \<and>
            x_error ?r3 = Some ''Forbidden'' \<and> ''Forbidden'' \<noteq> [] \<and>
            400 \<le> status_code ?r3 \<and> status_code ?r3 < 600"
    by (simp add: fixed_world_simps a_response_simps)
  have s3: "status_code ?r3 = 403"
    by (simp add: a_response_simps)
  from authenticate_pocket_code_first [of ?w3] h3
  have "fst (request_code ?w3) = Inl (HTTPError (status_code ?r3))"
    by blast
  then have a3: "fst (request_code ?w3) = Inl (HTTPError 403)"
    by (simp only: s3)
  with authenticate_pocket_code_first [of ?w3]
  have b3: "fst (authenticate_pocket ?w3) = Inl (HTTPError 403) \<and>
        \<not> list_ex is_browser_open (snd (authenticate_pocket ?w3)) \<and>
        \<not> list_ex (is_post_to token_url) (snd (authenticate_pocket ?w3))"
    by blast
  have c: "list_ex is_browser_open (snd (authenticate_pocket ?w2))"
    by (simp add: authenticate_pocket_def request_code_def request_access_token_def
          request_authorization_def post_def Let_def fixed_world_simps a_response_simps
          strip_def lstrip_def rstrip_def isspace_def)
  from a b a3 b3 c show ?thesis by blast
qed

text \<open>
  The claim as the specification states it takes every response outside the 2xx range as
  a failure of the step. \<open>post\<close> looks at the status only when the error header is there:
  a response of status 500 without the header, whose body has the entry \<open>code\<close>, gives
  \<open>request_code\<close> a code, and the browser window and the token exchange follow.
\<close>

theorem code_request_status_ignored:
  "status_code (a_response 500 None ''code'' (Inr (JObj [(''code'', JStr ''abc'')]))) = 500 \<and>
   fst (request_code
          (fixed_world (Inr (a_response 500 None ''code'' (Inr (JObj [(''code'', JStr ''abc'')]))))
             (Inl GroqError))) = Inr (JStr ''abc'') \<and>
   list_ex is_browser_open
     (snd (authenticate_pocket
        (fixed_world (Inr (a_response 500 None ''code'' (Inr (JObj [(''code'', JStr ''abc'')]))))
           (Inl GroqError)))) \<and>
   list_ex (is_post_to token_url)
     (snd (authenticate_pocket
        (fixed_world (Inr (a_response 500 None ''code'' (Inr (JObj [(''code'', JStr ''abc'')]))))
           (Inl GroqError))))"
  by (simp add: authenticate_pocket_def request_code_def request_access_token_def
        request_authorization_def post_def Let_def fixed_world_simps a_response_simps
        strip_def lstrip_def rstrip_def isspace_def)

section \<open>The title in the prompt\<close>

lemma article_title_cases:
  "article_title a =
     (if py_truthy (dict_get a ''resolved_title'') then dict_get a ''resolved_title''
      else if py_truthy (dict_get a ''given_title'') then dict_get a ''given_title''
      else JStr ''No title'')"
  by (simp add: article_title_def py_or_def)

text \<open>
  Claim C7, as the code has it: \<open>a or b\<close> passes over a value that is false, so the title
  is the resolved title when that is a string that is not empty, and the given title when
  the resolved title is missing or empty and the given title is a string that is not
  empty. The title is what the prompt has on its line \<open>Title:\<close>. With the resolved title
  \<open>Foo\<close> and the given title \<open>Bar\<close> the title is \<open>Foo\<close>; with the given title \<open>Bar\<close>
  alone it is \<open>Bar\<close>.
\<close>

theorem article_title_preference:
  "(\<forall>s. map_of a ''resolved_title'' = Some (JStr s) \<and> s \<noteq> [] \<longrightarrow> article_title a = JStr s) \<and>
   (\<forall>g. (map_of a ''resolved_title'' = None \<or> map_of a ''resolved_title'' = Some (JStr [])) \<and>
        map_of a ''given_title'' = Some (JStr g) \<and> g \<noteq> [] \<longrightarrow> article_title a = JStr g) \<and>
   (\<exists>rest. build_prompt w a =
        prompt_indent @ ''I have an article with the following details:''
        @ prompt_indent @ prompt_indent @ ''Title: '' @ py_str w (article_title a)
        @ prompt_indent @ ''URL: '' @ rest) \<and>
   article_title [(''resolved_title'', JStr ''Foo''), (''given_title'', JStr ''Bar'')] = JStr ''Foo'' \<and>
   article_title [(''given_title'', JStr ''Bar'')] = JStr ''Bar''"
proof (intro conjI allI impI)
  fix s assume "map_of a ''resolved_title'' = Some (JStr s) \<and> s \<noteq> []"
  then show "article_title a = JStr s"
    by (simp add: article_title_cases dict_get_def dict_get_default_def)
next
  fix g
  assume "(map_of a ''resolved_title'' = None \<or> map_of a ''resolved_title'' = Some (JStr [])) \<and>
        map_of a ''given_title'' = Some (JStr g) \<and> g \<noteq> []"
  then show "article_title a = JStr g"
    by (auto simp: article_title_cases dict_get_def dict_get_default_def)
next
  show "\<exists>rest. build_prompt w a =
        prompt_indent @ ''I have an article with the following details:''
        @ prompt_indent @ prompt_indent @ ''Title: '' @ py_str w (article_title a)
        @ prompt_indent @ ''URL: '' @ rest"
    by (simp add: build_prompt_def Let_def)
next
  show "article_title [(''resolved_title'', JStr ''Foo''), (''given_title'', JStr ''Bar'')]
          = JStr ''Foo''"
    by (simp add: article_title_cases dict_get_def dict_get_default_def)
next
  show "article_title [(''given_title'', JStr ''Bar'')] = JStr ''Bar''"
    by (simp add: article_title_cases dict_get_def dict_get_default_def)
qed

theorem article_title_preference_witness:
  "map_of [(''resolved_title'', JStr ''Foo''), (''given_title'', JStr ''Bar'')] ''resolved_title''
     = Some (JStr ''Foo'') \<and> ''Foo'' \<noteq> [] \<and>
   article_title [(''resolved_title'', JStr ''Foo''), (''given_title'', JStr ''Bar'')] = JStr ''Foo'' \<and>
   map_of [(''resolved_title'', JStr []), (''given_title'', JStr ''Bar'')] ''given_title''
     = Some (JStr ''Bar'') \<and>
   article_title [(''resolved_title'', JStr []), (''given_title'', JStr ''Bar'')] = JStr ''Bar''"
proof -
  let ?a = "[(''resolved_title'', JStr ''Foo''), (''given_title'', JStr ''Bar'')]"
  let ?b = "[(''resolved_title'', JStr []), (''given_title'', JStr ''Bar'')]"
  have h1: "map_of ?a ''resolved_title'' = Some (JStr ''Foo'') \<and> ''Foo'' \<noteq> []"
    by simp
  have h2: "(map_of ?b ''resolved_title'' = None \<or> map_of ?b ''resolved_title'' = Some (JStr [])) \<and>
            map_of ?b ''given_title'' = Some (JStr ''Bar'') \<and> ''Bar'' \<noteq> []"
    by simp
  from article_title_preference [of ?a] h1 have a: "article_title ?a = JStr ''Foo''"
    by blast
  from article_title_preference [of ?b] h2 have b: "article_title ?b = JStr ''Bar''"
    by blast
  from h1 h2 a b show ?thesis by blast
qed

text \<open>
  A resolved title that is present and empty is not the title of the prompt: the given
  title is.
\<close>

theorem empty_resolved_title_not_used:
  "map_of [(''resolved_title'', JStr []), (''given_title'', JStr ''Bar'')] ''resolved_title''
     = Some (JStr []) \<and>
   article_title [(''resolved_title'', JStr []), (''given_title'', JStr ''Bar'')] = JStr ''Bar'' \<and>
   article_title [(''resolved_title'', JStr []), (''given_title'', JStr ''Bar'')] \<noteq> JStr []"
  by (simp add: article_title_cases dict_get_def dict_get_default_def)

end
